theory Spec2Isabelle
  imports Main "HOL-Library.Char_ord"
begin

section \<open>The Cursed Forest: game state and narrative interpreter of game2.py\<close>

text \<open>
  The program is a Streamlit script. Everything it keeps between two executions of the
  script lives in \<open>st.session_state\<close> under three keys; the functions of the script read
  and mutate that dictionary. The model passes the state explicitly and returns, beside
  the new state, the list of user-visible calls (\<open>st.error\<close>, \<open>st.success\<close>,
  \<open>st.write\<close>) the function made, in order.

  Strings are byte lists holding the UTF-8 form of Python's \<open>str\<close>; on well-formed UTF-8
  a run of bytes occurs in a text exactly when the run of code points does, so \<open>in\<close> is
  the search for a contiguous run of bytes. The methods \<open>str.lower\<close> and
  \<open>str.capitalize\<close> belong to Python, not to the script, and follow the Unicode case
  tables (the Kelvin sign U+212A lower-cases to \<open>k\<close>): they are parameters of the model,
  the record \<open>py\<close>. Nothing is assumed of them, except where a theorem evaluates a fixed
  ASCII text of the script; there the hypothesis \<open>ascii_faithful\<close> says that on ASCII text
  they do what Python does on ASCII text, and \<open>ascii_py\<close> is the instance used on concrete
  ASCII inputs.
\<close>

subsection \<open>Strings\<close>

text \<open>Python's two string methods the script calls, as functions on UTF-8 text.\<close>

record py_str =
  lower :: "string \<Rightarrow> string"
  capitalize :: "string \<Rightarrow> string"

text \<open>What the two methods do on ASCII text: \<open>lower\<close> maps \<open>A\<close> to \<open>Z\<close> onto \<open>a\<close> to \<open>z\<close>;
  \<open>capitalize\<close> upper-cases the first character and lower-cases the others.\<close>

definition lower_char :: "char \<Rightarrow> char" where
  "lower_char c = (if CHR ''A'' \<le> c \<and> c \<le> CHR ''Z'' then char_of (of_char c + (32::nat)) else c)"

definition upper_char :: "char \<Rightarrow> char" where
  "upper_char c = (if CHR ''a'' \<le> c \<and> c \<le> CHR ''z'' then char_of (of_char c - (32::nat)) else c)"

definition ascii_lower :: "string \<Rightarrow> string" where
  "ascii_lower s = map lower_char s"

fun ascii_capitalize :: "string \<Rightarrow> string" where
  "ascii_capitalize [] = []"
| "ascii_capitalize (c # cs) = upper_char c # ascii_lower cs"

definition ascii_py :: py_str where
  "ascii_py = \<lparr>lower = ascii_lower, capitalize = ascii_capitalize\<rparr>"

definition is_ascii :: "string \<Rightarrow> bool" where
  "is_ascii s = list_all (\<lambda>c. c \<le> CHR 0x7F) s"

definition ascii_faithful :: "py_str \<Rightarrow> bool" where
  "ascii_faithful py =
     (\<forall>s. is_ascii s \<longrightarrow> lower py s = ascii_lower s \<and> capitalize py s = ascii_capitalize s)"

fun startswith :: "string \<Rightarrow> string \<Rightarrow> bool" where
  "startswith s [] = True"
| "startswith [] (p # ps) = False"
| "startswith (c # cs) (p # ps) = (c = p \<and> startswith cs ps)"

text \<open>\<open>str_in sub s\<close> is Python's \<open>sub in s\<close> on strings: \<open>sub\<close> occurs in \<open>s\<close> as a
  contiguous run.\<close>

fun str_in :: "string \<Rightarrow> string \<Rightarrow> bool" where
  "str_in sub [] = (sub = [])"
| "str_in sub (c # cs) = (startswith (c # cs) sub \<or> str_in sub cs)"

subsection \<open>Data\<close>

text \<open>The dictionary stored under \<open>"game_state"\<close>.\<close>

record game_state =
  health :: int
  inventory :: "string list"
  choices_made :: int
  found_item :: "string option"

text \<open>A conversation entry \<open>{"role": r, "parts": [{"text": t}, ...]}\<close>; \<open>parts\<close> holds the
  texts.\<close>

record message =
  role :: string
  parts :: "string list"

text \<open>\<open>st.session_state\<close> between two runs of the script: each key is present or absent.\<close>

record session_state =
  stored_conversation_history :: "message list option"
  stored_messages :: "message list option"
  stored_game_state :: "game_state option"

text \<open>The same three entries once \<open>initialize_session_state\<close> has made them present.\<close>

record session =
  conversation_history :: "message list"
  messages :: "message list"
  game_state :: game_state

datatype ui_event = St_error string | St_success string | St_write string

text \<open>What the call of the external text generator does in this run: it returns a text or
  raises an exception whose \<open>str\<close> is given.\<close>

datatype generation = Response string | Raises string

text \<open>What the widgets return in one run of the script.\<close>

record inputs =
  restart_game :: bool
  start_new_game :: bool
  pick_up :: bool
  use_potion :: bool
  user_input :: "string option"
  generator :: generation

datatype script_end = Rerun | Finished

subsection \<open>Session state\<close>

definition new_game_state :: game_state where
  "new_game_state = \<lparr>health = 100, inventory = [], choices_made = 0, found_item = None\<rparr>"

definition cleared :: session_state where
  "cleared = \<lparr>stored_conversation_history = None, stored_messages = None,
     stored_game_state = None\<rparr>"

definition initialize_session_state :: "session_state \<Rightarrow> session" where
  "initialize_session_state st =
     \<lparr>conversation_history =
        (case stored_conversation_history st of None \<Rightarrow> [] | Some h \<Rightarrow> h),
      messages = (case stored_messages st of None \<Rightarrow> [] | Some m \<Rightarrow> m),
      game_state = (case stored_game_state st of None \<Rightarrow> new_game_state | Some g \<Rightarrow> g)\<rparr>"

definition store :: "session \<Rightarrow> session_state" where
  "store s = \<lparr>stored_conversation_history = Some (conversation_history s),
     stored_messages = Some (messages s), stored_game_state = Some (game_state s)\<rparr>"

subsection \<open>The generator call\<close>

definition fallback_text :: string where
  "fallback_text = ''Something went wrong in the forest... Please try again.''"

definition generate_story_response :: "generation \<Rightarrow> ui_event list \<times> string" where
  "generate_story_response g =
     (case g of
        Response t \<Rightarrow> ([], t)
      | Raises e \<Rightarrow> ([St_error (''Error generating response: '' @ e)], fallback_text))"

subsection \<open>The narrative interpreter\<close>

definition dangerous_actions :: "string list" where
  "dangerous_actions = [''fight'', ''confront'', ''explore'', ''approach'', ''follow'',
     ''ignore warning'', ''trap'', ''venture deeper'']"

definition inventory_items :: "(string \<times> string) list" where
  "inventory_items =
     [(''potion'', ''You found a **potion**!''),
      (''sword'', ''You found a **sword**!''),
      (''key'', ''You found a **key**!''),
      (''map'', ''You found a **map**!''),
      (''shield'', ''You found a **shield**!''),
      (''amulet'', ''You found an **amulet**!''),
      (''health_potion'', ''You found a **health potion**!'')]"

definition marked :: "string \<Rightarrow> string" where
  "marked item = ''**'' @ item @ ''**''"

definition party :: string where
  "party = [CHR 0xF0, CHR 0x9F, CHR 0x8E, CHR 0x89]"

text \<open>The first loop of \<open>update_game_state\<close>: one pass over the keywords, 15 off for each
  keyword that occurs in the lower-cased text.\<close>

fun danger_loop :: "py_str \<Rightarrow> string list \<Rightarrow> string \<Rightarrow> game_state \<Rightarrow> game_state" where
  "danger_loop py [] response_text gs = gs"
| "danger_loop py (action # rest) response_text gs =
     danger_loop py rest response_text
       (if str_in action (lower py response_text) then gs\<lparr>health := health gs - 15\<rparr> else gs)"

text \<open>The second loop: one pass over the catalog in insertion order, with no exit; every
  entry whose marked form occurs overwrites \<open>found_item\<close>, counts as a choice and is
  announced.\<close>

fun item_loop :: "py_str \<Rightarrow> (string \<times> string) list \<Rightarrow> string \<Rightarrow> ui_event list \<times> game_state
    \<Rightarrow> ui_event list \<times> game_state" where
  "item_loop py [] response_text (ui, gs) = (ui, gs)"
| "item_loop py ((item, notification) # rest) response_text (ui, gs) =
     item_loop py rest response_text
       (if str_in (marked item) (lower py response_text)
        then (ui @ [St_write (party @ '' You found a **'' @ capitalize py item @ ''**!'')],
              gs\<lparr>found_item := Some item, choices_made := choices_made gs + 1\<rparr>)
        else (ui, gs))"

definition update_game_state :: "py_str \<Rightarrow> string \<Rightarrow> game_state \<Rightarrow> ui_event list \<times> game_state" where
  "update_game_state py response_text gs =
     (let gs1 = danger_loop py dangerous_actions response_text gs;
          gs2 = gs1\<lparr>health := max (health gs1) 0\<rparr>
      in item_loop py inventory_items response_text ([], gs2))"

subsection \<open>Player actions on the state\<close>

definition add_item_to_inventory :: "py_str \<Rightarrow> game_state \<Rightarrow> ui_event list \<times> game_state" where
  "add_item_to_inventory py gs =
     (case found_item gs of
        None \<Rightarrow> ([], gs)
      | Some item \<Rightarrow>
          if item \<noteq> [] \<and> item \<notin> set (inventory gs)
          then ([St_success (capitalize py item @ '' added to inventory!'')],
                gs\<lparr>inventory := inventory gs @ [item], found_item := None\<rparr>)
          else ([], gs))"

definition use_health_potion :: "game_state \<Rightarrow> ui_event list \<times> game_state" where
  "use_health_potion gs =
     (if ''health_potion'' \<in> set (inventory gs)
      then ([St_success ''You used a health potion! Health restored by 30 points.''],
            gs\<lparr>health := min (health gs + 30) 100,
               inventory := remove1 ''health_potion'' (inventory gs)\<rparr>)
      else ([St_error ''You don't have any health potions!''], gs))"

subsection \<open>One run of the script\<close>

definition intro_text :: string where
  "intro_text =
     ''Welcome, brave soul! You are Kaelen, a wanderer who finds yourself lost in the mysterious Cursed Forest. ''
     @ ''Strange creatures, hidden dangers, and an ancient curse lurk in the shadows. Legend has it that the heart ''
     @ ''of the forest holds a powerful artifact, but no one who has ventured deep enough has ever returned.''
     @ [CHR 0x0A, CHR 0x0A]
     @ ''Your adventure begins at the edge of the forest, where an eerie fog hangs in the air. You notice:''
     @ [CHR 0x0A, CHR 0x0A]
     @ ''1. A narrow path leading deeper into the woods'' @ [CHR 0x0A]
     @ ''2. A strange glowing mushroom near a hollow tree'' @ [CHR 0x0A]
     @ ''3. The sound of running water in the distance'' @ [CHR 0x0A, CHR 0x0A]
     @ ''What would you like to do?''"

definition intro_message :: message where
  "intro_message = \<lparr>role = ''model'', parts = [intro_text]\<rparr>"

definition game_over_text :: string where
  "game_over_text = [CHR 0xF0, CHR 0x9F, CHR 0x92, CHR 0x80]
     @ '' Game Over - You have perished in the Cursed Forest''"

text \<open>Python's truth value of a value that is \<open>None\<close> or a string.\<close>

fun truthy :: "string option \<Rightarrow> bool" where
  "truthy None = False"
| "truthy (Some s) = (s \<noteq> [])"

text \<open>Lines 150 to 166: an empty history receives the introduction, in both lists.\<close>

definition add_intro :: "session \<Rightarrow> session" where
  "add_intro s =
     (if conversation_history s = []
      then s\<lparr>conversation_history := conversation_history s @ [intro_message],
             messages := messages s @ [intro_message]\<rparr>
      else s)"

text \<open>Lines 183 to 186: the pick-up button is drawn only for a pending item.\<close>

definition pick_up_button :: "py_str \<Rightarrow> inputs \<Rightarrow> session \<Rightarrow> ui_event list \<times> session" where
  "pick_up_button py inp s =
     (if truthy (found_item (game_state s)) \<and> pick_up inp
      then (let (ui, gs) = add_item_to_inventory py (game_state s) in (ui, s\<lparr>game_state := gs\<rparr>))
      else ([], s))"

text \<open>Lines 188 to 190: the potion button is drawn only with a potion in the inventory.\<close>

definition potion_button :: "inputs \<Rightarrow> session \<Rightarrow> ui_event list \<times> session" where
  "potion_button inp s =
     (if ''health_potion'' \<in> set (inventory (game_state s)) \<and> use_potion inp
      then (let (ui, gs) = use_health_potion (game_state s) in (ui, s\<lparr>game_state := gs\<rparr>))
      else ([], s))"

text \<open>Lines 195 to 207: the player's message is logged and counted, the generator is
  called, its text (or the fallback text) is interpreted and logged.\<close>

definition player_turn :: "py_str \<Rightarrow> string \<Rightarrow> generation \<Rightarrow> session \<Rightarrow> ui_event list \<times> session" where
  "player_turn py text g s =
     (let user_message = \<lparr>role = ''user'', parts = [text]\<rparr>;
          s1 = s\<lparr>conversation_history := conversation_history s @ [user_message],
                 messages := messages s @ [user_message]\<rparr>;
          s2 = s1\<lparr>game_state := (game_state s1)\<lparr>choices_made := choices_made (game_state s1) + 1\<rparr>\<rparr>;
          (ui1, response) = generate_story_response g;
          (ui2, gs) = update_game_state py response (game_state s2);
          ai_message = \<lparr>role = ''model'', parts = [response]\<rparr>
      in (ui1 @ ui2,
          s2\<lparr>game_state := gs,
             conversation_history := conversation_history s2 @ [ai_message],
             messages := messages s2 @ [ai_message]\<rparr>))"

text \<open>\<open>main\<close>: one execution of the script, up to its end or to \<open>st.rerun()\<close>. The
  drawing of the side bar and of the history changes no state and is left out.\<close>

definition main :: "py_str \<Rightarrow> inputs \<Rightarrow> session_state \<Rightarrow> script_end \<times> ui_event list \<times> session_state" where
  "main py inp st =
     (let s0 = initialize_session_state st in
      if restart_game inp then (Rerun, [], cleared)
      else
        let s1 = add_intro s0 in
        if health (game_state s1) \<le> 0
        then (if start_new_game inp then (Rerun, [St_error game_over_text], cleared)
              else (Finished, [St_error game_over_text], store s1))
        else
          let (ui1, s2) = pick_up_button py inp s1;
              (ui2, s3) = potion_button inp s2
          in (case user_input inp of
                None \<Rightarrow> (Finished, ui1 @ ui2, store s3)
              | Some text \<Rightarrow>
                  if text \<noteq> []
                  then (let (ui3, s4) = player_turn py text (generator inp) s3
                        in (Rerun, ui1 @ ui2 @ ui3, store s4))
                  else (Finished, ui1 @ ui2, store s3)))"

text \<open>The run that follows \<open>st.rerun()\<close>: no button is pressed and the chat box is empty.\<close>

definition idle :: "inputs \<Rightarrow> inputs" where
  "idle inp = inp\<lparr>restart_game := False, start_new_game := False, pick_up := False,
     use_potion := False, user_input := None\<rparr>"

definition wants_rerun :: "inputs \<Rightarrow> bool" where
  "wants_rerun inp = (restart_game inp \<or> start_new_game inp \<or> truthy (user_input inp))"

text \<open>One interaction: the script runs, and runs again after each \<open>st.rerun()\<close>; the
  result is what the last run shows and the state it leaves.\<close>

function interaction :: "py_str \<Rightarrow> inputs \<Rightarrow> session_state \<Rightarrow> ui_event list \<times> session_state" where
  "interaction py inp st =
     (case main py inp st of
        (Rerun, ui, st') \<Rightarrow> interaction py (idle inp) st'
      | (Finished, ui, st') \<Rightarrow> (ui, st'))"
  by pat_completeness auto
termination
  apply (relation "measure (\<lambda>(py, inp, st). if wants_rerun inp then 1 else 0)")
   apply simp
  apply (auto simp: main_def wants_rerun_def idle_def Let_def
      split: if_splits prod.splits option.splits)
  done

declare interaction.simps [simp del]

subsection \<open>Vocabulary of the properties\<close>

text \<open>The danger keywords that occur in the lower-cased text, and the catalog identifiers
  whose marked form occurs in it, both in the order of the script's lists.\<close>

definition danger_hits :: "py_str \<Rightarrow> string \<Rightarrow> string list" where
  "danger_hits py response_text =
     filter (\<lambda>action. str_in action (lower py response_text)) dangerous_actions"

definition hits_in :: "py_str \<Rightarrow> (string \<times> string) list \<Rightarrow> string \<Rightarrow> string list" where
  "hits_in py items response_text =
     map fst (filter (\<lambda>(item, notification). str_in (marked item) (lower py response_text)) items)"

definition detected :: "py_str \<Rightarrow> string \<Rightarrow> string list" where
  "detected py response_text = hits_in py inventory_items response_text"

definition announce :: "py_str \<Rightarrow> string \<Rightarrow> ui_event" where
  "announce py item = St_write (party @ '' You found a **'' @ capitalize py item @ ''**!'')"


text \<open>The catalog's identifiers, and the state predicates the properties speak of.\<close>

definition known_item :: "string \<Rightarrow> bool" where
  "known_item item = (item \<in> set (map fst inventory_items))"

definition found_item_known :: "game_state \<Rightarrow> bool" where
  "found_item_known gs = (case found_item gs of None \<Rightarrow> True | Some item \<Rightarrow> known_item item)"

text \<open>What every operation keeps: a found item is a catalog identifier, and no identifier is
  in the inventory twice.\<close>

definition state_inv :: "game_state \<Rightarrow> bool" where
  "state_inv gs = (found_item_known gs \<and> distinct (inventory gs))"

definition stored_inv :: "session_state \<Rightarrow> bool" where
  "stored_inv st = (case stored_game_state st of None \<Rightarrow> True | Some gs \<Rightarrow> state_inv gs)"

text \<open>The failure of \<open>use_health_potion\<close> as the user sees it.\<close>

definition item_unavailable :: "ui_event list \<Rightarrow> bool" where
  "item_unavailable ui = (St_error ''You don't have any health potions!'' \<in> set ui)"

text \<open>An instance of the two methods that also knows one case pair outside ASCII: the
  Kelvin sign U+212A, in UTF-8 the bytes E2 84 AA, lower-cases to \<open>k\<close>.\<close>

fun fold_kelvin :: "string \<Rightarrow> string" where
  "fold_kelvin (a # b # c # cs) =
     (if a = CHR 0xE2 \<and> b = CHR 0x84 \<and> c = CHR 0xAA then CHR ''k'' # fold_kelvin cs
      else a # fold_kelvin (b # c # cs))"
| "fold_kelvin cs = cs"

definition kelvin_py :: py_str where
  "kelvin_py = \<lparr>lower = (\<lambda>s. ascii_lower (fold_kelvin s)), capitalize = ascii_capitalize\<rparr>"

definition kelvin_text :: string where
  "kelvin_text = ''A **sword** and a **'' @ [CHR 0xE2, CHR 0x84, CHR 0xAA] @ ''ey**.''"

text \<open>Example inputs and sessions: a run with no widget touched, a game under way and a
  game that is lost.\<close>

definition no_input :: inputs where
  "no_input = \<lparr>restart_game = False, start_new_game = False, pick_up = False,
     use_potion = False, user_input = None, generator = Raises []\<rparr>"

definition played_session :: session_state where
  "played_session =
     store \<lparr>conversation_history =
         [intro_message, \<lparr>role = ''user'', parts = [''fight'']\<rparr>,
          \<lparr>role = ''model'', parts = [''You fight and find a **key**.'']\<rparr>],
       messages =
         [intro_message, \<lparr>role = ''user'', parts = [''fight'']\<rparr>,
          \<lparr>role = ''model'', parts = [''You fight and find a **key**.'']\<rparr>],
       game_state = \<lparr>health = 85, inventory = [''map''], choices_made = 2,
         found_item = Some ''key''\<rparr>\<rparr>"

definition perished_session :: session_state where
  "perished_session =
     store \<lparr>conversation_history =
         [intro_message, \<lparr>role = ''user'', parts = [''fight'']\<rparr>,
          \<lparr>role = ''model'', parts = [''You fight and fall into a trap.'']\<rparr>],
       messages =
         [intro_message, \<lparr>role = ''user'', parts = [''fight'']\<rparr>,
          \<lparr>role = ''model'', parts = [''You fight and fall into a trap.'']\<rparr>],
       game_state = \<lparr>health = 0, inventory = [], choices_made = 1, found_item = None\<rparr>\<rparr>"

section \<open>Properties\<close>

subsection \<open>Substring test and the two scans\<close>

lemma startswith_iff: "startswith s p \<longleftrightarrow> (\<exists>r. s = p @ r)"
  by (induction s p rule: startswith.induct) auto

lemma str_in_iff: "str_in sub s \<longleftrightarrow> (\<exists>pre post. s = pre @ sub @ post)"
proof (induction s)
  case Nil
  then show ?case by auto
next
  case (Cons c cs)
  show ?case
  proof
    assume "str_in sub (c # cs)"
    then consider "startswith (c # cs) sub" | "str_in sub cs" by auto
    then show "\<exists>pre post. c # cs = pre @ sub @ post"
    proof cases
      case 1
      then obtain r where "c # cs = sub @ r" by (auto simp: startswith_iff)
      then have "c # cs = [] @ sub @ r" by simp
      then show ?thesis by blast
    next
      case 2
      then obtain pre post where "cs = pre @ sub @ post" using Cons.IH by blast
      then have "c # cs = (c # pre) @ sub @ post" by simp
      then show ?thesis by blast
    qed
  next
    assume "\<exists>pre post. c # cs = pre @ sub @ post"
    then obtain pre post where e: "c # cs = pre @ sub @ post" by blast
    show "str_in sub (c # cs)"
    proof (cases pre)
      case Nil
      with e have "startswith (c # cs) sub" by (auto simp: startswith_iff)
      then show ?thesis by simp
    next
      case (Cons a pre')
      with e have "cs = pre' @ sub @ post" by simp
      then have "str_in sub cs" using Cons.IH by blast
      then show ?thesis by simp
    qed
  qed
qed

lemma danger_loop_health:
  "danger_loop py ks t gs =
     gs\<lparr>health := health gs - 15 * int (length (filter (\<lambda>k. str_in k (lower py t)) ks))\<rparr>"
  by (induction ks arbitrary: gs) auto

lemma hits_in_Nil: "hits_in py [] t = []"
  by (simp add: hits_in_def)

lemma hits_in_Cons:
  "hits_in py ((item, n) # rest) t =
     (if str_in (marked item) (lower py t) then item # hits_in py rest t else hits_in py rest t)"
  by (simp add: hits_in_def)

lemma item_loop_hits:
  "item_loop py items t (ui, gs) =
     (ui @ map (announce py) (hits_in py items t),
      if hits_in py items t = [] then gs
      else gs\<lparr>found_item := Some (last (hits_in py items t)),
              choices_made := choices_made gs + int (length (hits_in py items t))\<rparr>)"
proof (induction items arbitrary: ui gs)
  case Nil
  show ?case by (simp add: hits_in_Nil)
next
  case (Cons p items)
  obtain item n where p: "p = (item, n)" by (cases p)
  show ?case
    unfolding p by (simp add: Cons.IH hits_in_Cons announce_def)
qed

lemma update_game_state_eq:
  "update_game_state py t gs =
     (map (announce py) (detected py t),
      if detected py t = []
      then gs\<lparr>health := max (health gs - 15 * int (length (danger_hits py t))) 0\<rparr>
      else gs\<lparr>health := max (health gs - 15 * int (length (danger_hits py t))) 0,
              found_item := Some (last (detected py t)),
              choices_made := choices_made gs + int (length (detected py t))\<rparr>)"
  by (simp add: update_game_state_def Let_def danger_loop_health item_loop_hits
      detected_def danger_hits_def)

lemma distinct_dangerous_actions: "distinct dangerous_actions"
  by (simp add: dangerous_actions_def)

lemma length_danger_hits:
  "length (danger_hits py t) = card {k \<in> set dangerous_actions. str_in k (lower py t)}"
proof -
  have "distinct (danger_hits py t)"
    by (simp add: danger_hits_def distinct_dangerous_actions)
  then have "length (danger_hits py t) = card (set (danger_hits py t))"
    by (simp add: distinct_card)
  also have "set (danger_hits py t) = {k \<in> set dangerous_actions. str_in k (lower py t)}"
    by (simp add: danger_hits_def)
  finally show ?thesis .
qed

lemma ascii_faithful_ascii_py: "ascii_faithful ascii_py"
  by (simp add: ascii_faithful_def ascii_py_def)

lemma lower_ascii:
  "ascii_faithful py \<Longrightarrow> is_ascii t \<Longrightarrow> lower py t = lower ascii_py t"
  by (simp add: ascii_faithful_def ascii_py_def)

lemma danger_hits_ascii:
  "ascii_faithful py \<Longrightarrow> is_ascii t \<Longrightarrow> danger_hits py t = danger_hits ascii_py t"
  by (simp add: danger_hits_def lower_ascii)

lemma detected_ascii:
  "ascii_faithful py \<Longrightarrow> is_ascii t \<Longrightarrow> detected py t = detected ascii_py t"
  by (simp add: detected_def hits_in_def lower_ascii)

lemma fallback_is_ascii: "is_ascii fallback_text"
  by code_simp

lemma fallback_no_danger_ascii: "danger_hits ascii_py fallback_text = []"
  by code_simp

lemma fallback_no_item_ascii: "detected ascii_py fallback_text = []"
  by code_simp

lemma fallback_no_danger: "ascii_faithful py \<Longrightarrow> danger_hits py fallback_text = []"
  by (simp add: danger_hits_ascii fallback_is_ascii fallback_no_danger_ascii)

lemma fallback_no_item: "ascii_faithful py \<Longrightarrow> detected py fallback_text = []"
  by (simp add: detected_ascii fallback_is_ascii fallback_no_item_ascii)

subsection \<open>The danger scan\<close>

text \<open>
  Claim C3. For every response text and every starting health between 0 and 100, with
  \<open>N\<close> the number of distinct danger keywords that occur in the lower-cased text, the
  health after \<open>update_game_state\<close> is \<open>max (h - 15 * N) 0\<close>. \<open>N\<close> counts keywords, not
  occurrences, so a keyword that occurs several times counts once. The health stays
  between 0 and 100.
\<close>

theorem danger_scan_health:
  assumes "0 \<le> health gs" and "health gs \<le> 100"
  shows "health (snd (update_game_state py t gs)) =
           max (health gs - 15 * int (card {k \<in> set dangerous_actions. str_in k (lower py t)})) 0
         \<and> 0 \<le> health (snd (update_game_state py t gs))
         \<and> health (snd (update_game_state py t gs)) \<le> 100"
proof -
  let ?n = "card {k \<in> set dangerous_actions. str_in k (lower py t)}"
  have h: "health (snd (update_game_state py t gs)) = max (health gs - 15 * int ?n) 0"
    by (simp add: update_game_state_eq length_danger_hits)
  have "health gs - 15 * int ?n \<le> 100"
    using assms(2) by linarith
  with h show ?thesis by simp
qed

lemma three_keywords:
  "danger_hits ascii_py ''You FIGHT, you fight on, and explore a trap.'' = [''fight'', ''explore'', ''trap'']"
  by code_simp

theorem danger_scan_health_witness:
  "health (snd (update_game_state ascii_py ''You FIGHT, you fight on, and explore a trap.''
       (new_game_state\<lparr>health := 50\<rparr>))) = 5
   \<and> card {k \<in> set dangerous_actions.
         str_in k (lower ascii_py ''You FIGHT, you fight on, and explore a trap.'')} = 3"
proof -
  let ?t = "''You FIGHT, you fight on, and explore a trap.''"
  have n: "card {k \<in> set dangerous_actions. str_in k (lower ascii_py ?t)} = 3"
    using length_danger_hits [of ascii_py ?t] by (simp add: three_keywords)
  have "0 \<le> health (new_game_state\<lparr>health := 50\<rparr>)"
    and "health (new_game_state\<lparr>health := 50\<rparr>) \<le> 100"
    by simp_all
  from danger_scan_health [OF this, of ascii_py ?t] n show ?thesis
    by simp
qed

subsection \<open>The fallback text\<close>

text \<open>
  Claim C9. The fixed text that \<open>generate_story_response\<close> returns when the generator
  raises contains no danger keyword and no marked catalog item, so \<open>update_game_state\<close>
  on it announces nothing and returns the state as it was: health (not negative, as the
  data model has it), inventory, found item and choice count. The text is ASCII, and
  Python's \<open>lower\<close> is taken to do on ASCII text what it does there.
\<close>

theorem fallback_text_inert:
  assumes "ascii_faithful py" and "0 \<le> health gs"
  shows "danger_hits py fallback_text = [] \<and> detected py fallback_text = []
         \<and> update_game_state py fallback_text gs = ([], gs)"
  using assms by (simp add: update_game_state_eq fallback_no_danger fallback_no_item max_def)

theorem fallback_text_inert_witness:
  "update_game_state ascii_py fallback_text new_game_state = ([], new_game_state)"
  using fallback_text_inert [of ascii_py new_game_state] ascii_faithful_ascii_py
  by (simp add: new_game_state_def)

subsection \<open>The item scan\<close>

lemma set_detected:
  "item \<in> set (detected py t) \<longleftrightarrow> known_item item \<and> str_in (marked item) (lower py t)"
  by (auto simp: detected_def hits_in_def known_item_def)

lemma detected_filter:
  "detected py t =
     filter (\<lambda>item. str_in (''**'' @ item @ ''**'') (lower py t))
       [''potion'', ''sword'', ''key'', ''map'', ''shield'', ''amulet'', ''health_potion'']"
  by (simp add: detected_def hits_in_def inventory_items_def marked_def)

lemma sword_on_map:
  "detected ascii_py ''An old **Map** is wrapped around a **SWORD**.'' = [''sword'', ''map'']"
  by code_simp

text \<open>
  Claim C1, as the specification states it: the scan reports the first catalog entry
  whose marked form occurs (the sword before the map) and counts the discovery once. On
  a text that marks both the sword and the map, the script leaves the map as the found
  item and counts two choices.
\<close>

theorem item_scan_last_match_counterexample:
  "found_item (snd (update_game_state ascii_py ''An old **Map** is wrapped around a **SWORD**.''
       new_game_state)) = Some ''map''
   \<and> choices_made (snd (update_game_state ascii_py ''An old **Map** is wrapped around a **SWORD**.''
       new_game_state)) = choices_made new_game_state + 2"
  by (simp add: update_game_state_eq sword_on_map)

text \<open>
  Claim C1, amended. For every response text, whatever Python's \<open>lower\<close> makes of it, the
  item scan leaves at most one found item. With \<open>hits\<close> the catalog entries, in the
  catalog's fixed order, whose marked form occurs in the lower-cased text: when there are
  several, the found item is the last of them (the map rather than the sword), wherever
  the mentions stand in the text; when there is none, the found item stays as it was.
  The choice count goes up by one for every entry of \<open>hits\<close>, and each of them is
  announced, in that order. So a text that marks the sword and, written with the Kelvin
  sign, the key leaves the key as the found item and counts two choices.
\<close>

theorem item_scan_last_match:
  assumes "hits =
      filter (\<lambda>item. str_in (''**'' @ item @ ''**'') (lower py t))
        [''potion'', ''sword'', ''key'', ''map'', ''shield'', ''amulet'', ''health_potion'']"
  shows "found_item (snd (update_game_state py t gs)) =
           (if hits = [] then found_item gs else Some (last hits))
       \<and> choices_made (snd (update_game_state py t gs)) = choices_made gs + int (length hits)
       \<and> fst (update_game_state py t gs) =
           map (\<lambda>item. St_write (party @ '' You found a **'' @ capitalize py item @ ''**!'')) hits"
proof -
  have hits: "detected py t = hits"
    using assms by (simp add: detected_filter)
  have "found_item (snd (update_game_state py t gs)) =
      (if hits = [] then found_item gs else Some (last hits))"
    by (simp add: update_game_state_eq hits)
  moreover have "choices_made (snd (update_game_state py t gs)) =
      choices_made gs + int (length hits)"
    by (simp add: update_game_state_eq hits)
  moreover have "fst (update_game_state py t gs) =
      map (\<lambda>item. St_write (party @ '' You found a **'' @ capitalize py item @ ''**!'')) hits"
    by (simp add: update_game_state_eq hits announce_def)
  ultimately show ?thesis
    by (intro conjI)
qed

lemma kelvin_hits:
  "[''sword'', ''key''] =
     filter (\<lambda>item. str_in (''**'' @ item @ ''**'') (lower kelvin_py kelvin_text))
       [''potion'', ''sword'', ''key'', ''map'', ''shield'', ''amulet'', ''health_potion'']"
  by code_simp

theorem item_scan_last_match_witness:
  "found_item (snd (update_game_state ascii_py ''An old **Map** is wrapped around a **SWORD**.''
       (new_game_state\<lparr>choices_made := 7\<rparr>))) = Some ''map''
   \<and> choices_made (snd (update_game_state ascii_py ''An old **Map** is wrapped around a **SWORD**.''
       (new_game_state\<lparr>choices_made := 7\<rparr>))) = 9
   \<and> found_item (snd (update_game_state kelvin_py kelvin_text new_game_state)) = Some ''key''
   \<and> choices_made (snd (update_game_state kelvin_py kelvin_text new_game_state)) = 2"
proof -
  have "[''sword'', ''map''] =
      filter (\<lambda>item. str_in (''**'' @ item @ ''**'')
          (lower ascii_py ''An old **Map** is wrapped around a **SWORD**.''))
        [''potion'', ''sword'', ''key'', ''map'', ''shield'', ''amulet'', ''health_potion'']"
    using sword_on_map by (simp add: detected_filter)
  from item_scan_last_match [OF this, of "new_game_state\<lparr>choices_made := 7\<rparr>"]
    item_scan_last_match [OF kelvin_hits, of new_game_state]
  show ?thesis by (simp add: new_game_state_def)
qed

lemma known_is_ascii: "known_item item \<Longrightarrow> is_ascii item"
proof -
  have "list_all is_ascii (map fst inventory_items)"
    by code_simp
  then show "known_item item \<Longrightarrow> is_ascii item"
    by (auto simp: known_item_def list_all_iff)
qed

lemma capitalize_known_inj:
  assumes "known_item a" and "known_item b" and "ascii_capitalize a = ascii_capitalize b"
  shows "a = b"
proof -
  have "distinct (map ascii_capitalize (map fst inventory_items))"
    by code_simp
  then have "inj_on ascii_capitalize (set (map fst inventory_items))"
    using distinct_map [of ascii_capitalize "map fst inventory_items"] by blast
  with assms show ?thesis
    unfolding known_item_def by (meson inj_onD)
qed

lemma announce_known_inj:
  assumes "ascii_faithful py" and "known_item a" and "known_item b"
    and "announce py a = announce py b"
  shows "a = b"
proof -
  from assms(4) have "capitalize py a = capitalize py b"
    by (simp add: announce_def)
  moreover have "capitalize py a = ascii_capitalize a" "capitalize py b = ascii_capitalize b"
    using assms(1-3) by (simp_all add: ascii_faithful_def known_is_ascii)
  ultimately show ?thesis
    using assms(2,3) by (simp add: capitalize_known_inj)
qed

lemma announced_iff:
  assumes "ascii_faithful py" and "known_item item"
  shows "announce py item \<in> set (fst (update_game_state py t gs)) \<longleftrightarrow>
    str_in (''**'' @ item @ ''**'') (lower py t)"
proof
  assume "announce py item \<in> set (fst (update_game_state py t gs))"
  then obtain other where o: "other \<in> set (detected py t)"
      and e: "announce py other = announce py item"
    by (auto simp: update_game_state_eq)
  from o have "known_item other" by (simp add: set_detected)
  with assms e have "other = item" by (simp add: announce_known_inj)
  with o show "str_in (''**'' @ item @ ''**'') (lower py t)"
    by (simp add: set_detected marked_def)
next
  assume "str_in (''**'' @ item @ ''**'') (lower py t)"
  with assms(2) have "item \<in> set (detected py t)"
    by (simp add: set_detected marked_def)
  then show "announce py item \<in> set (fst (update_game_state py t gs))"
    by (simp add: update_game_state_eq)
qed

lemma health_potion_found:
  assumes "str_in ''**health_potion**'' (lower py t)"
  shows "found_item (snd (update_game_state py t gs)) = Some ''health_potion''"
proof -
  from assms have "detected py t \<noteq> []" and "last (detected py t) = ''health_potion''"
    by (simp_all add: detected_filter)
  then show ?thesis
    by (simp add: update_game_state_eq)
qed

lemma health_potion_not_found:
  assumes "\<not> str_in ''**health_potion**'' (lower py t)"
    and "found_item gs \<noteq> Some ''health_potion''"
  shows "found_item (snd (update_game_state py t gs)) \<noteq> Some ''health_potion''"
proof (cases "detected py t = []")
  case True
  with assms(2) show ?thesis by (simp add: update_game_state_eq)
next
  case False
  then have "last (detected py t) \<in> set (detected py t)" by simp
  with assms(1) have "last (detected py t) \<noteq> ''health_potion''"
    by (auto simp: set_detected marked_def)
  with False show ?thesis by (simp add: update_game_state_eq)
qed

lemma discovery_phrase_ascii: "is_ascii ''You found a **health potion**!''"
  by code_simp

lemma discovery_phrase_undetected: "detected ascii_py ''You found a **health potion**!'' = []"
  by code_simp

lemma discovery_phrase_harmless: "danger_hits ascii_py ''You found a **health potion**!'' = []"
  by code_simp

lemma discovery_phrase_inert:
  assumes "ascii_faithful py" and "0 \<le> health gs"
  shows "update_game_state py ''You found a **health potion**!'' gs = ([], gs)"
  using assms
  by (simp add: update_game_state_eq danger_hits_ascii detected_ascii discovery_phrase_ascii
      discovery_phrase_undetected discovery_phrase_harmless max_def)

lemma underscore_form_marked:
  "str_in ''**health_potion**'' (lower ascii_py ''A **Health_Potion** glows in the moss.'')"
  by code_simp

lemma discovery_phrase_no_underscore:
  "\<not> str_in ''**health_potion**'' (lower ascii_py ''You found a **health potion**!'')"
  by code_simp

text \<open>
  Claim C10. The interpreter detects an item exactly when the literal form
  \<open>**identifier**\<close> of its catalog key occurs in the lower-cased text: a catalog item is
  announced by \<open>update_game_state\<close> if and only if that form occurs. For \<open>health_potion\<close>
  that is the form with the underscore: a text with \<open>**health_potion**\<close> makes
  \<open>health_potion\<close> the found item; a text without it never does, and on the catalog's
  own phrase with \<open>**health potion**\<close> the interpreter changes nothing.
\<close>

theorem health_potion_marker:
  "(ascii_faithful py \<longrightarrow> known_item item \<longrightarrow>
      (announce py item \<in> set (fst (update_game_state py t gs)) \<longleftrightarrow>
       str_in (''**'' @ item @ ''**'') (lower py t)))
   \<and> (str_in ''**health_potion**'' (lower py t) \<longrightarrow>
        found_item (snd (update_game_state py t gs)) = Some ''health_potion'')
   \<and> (\<not> str_in ''**health_potion**'' (lower py t) \<longrightarrow>
        found_item gs \<noteq> Some ''health_potion'' \<longrightarrow>
        found_item (snd (update_game_state py t gs)) \<noteq> Some ''health_potion'')
   \<and> (ascii_faithful py \<longrightarrow> 0 \<le> health gs \<longrightarrow>
        update_game_state py ''You found a **health potion**!'' gs = ([], gs))"
  using announced_iff health_potion_found health_potion_not_found discovery_phrase_inert
  by blast

theorem health_potion_marker_witness:
  "found_item (snd (update_game_state ascii_py ''A **Health_Potion** glows in the moss.''
       new_game_state)) = Some ''health_potion''
   \<and> announce ascii_py ''health_potion''
       \<in> set (fst (update_game_state ascii_py ''A **Health_Potion** glows in the moss.''
           new_game_state))
   \<and> found_item (snd (update_game_state ascii_py ''You found a **health potion**!''
       new_game_state)) \<noteq> Some ''health_potion''
   \<and> update_game_state ascii_py ''You found a **health potion**!'' new_game_state
       = ([], new_game_state)"
proof -
  have k: "known_item ''health_potion''"
    by (simp add: known_item_def inventory_items_def)
  have n: "found_item new_game_state \<noteq> Some ''health_potion''" "0 \<le> health new_game_state"
    by (simp_all add: new_game_state_def)
  from health_potion_marker [of ascii_py "''health_potion''"
      "''A **Health_Potion** glows in the moss.''" new_game_state]
    health_potion_marker [of ascii_py "''health_potion''"
      "''You found a **health potion**!''" new_game_state]
    ascii_faithful_ascii_py k n underscore_form_marked discovery_phrase_no_underscore
  show ?thesis by simp
qed

subsection \<open>Using a health potion\<close>

lemma count_list_remove1:
  "count_list (remove1 x xs) y =
     (if x = y \<and> x \<in> set xs then count_list xs y - 1 else count_list xs y)"
  by (induction xs) auto

lemma count_list_pos: "x \<in> set xs \<Longrightarrow> 0 < count_list xs x"
  by (induction xs) auto

text \<open>
  Claim C4. \<open>use_health_potion\<close> fails, with the message that no potion is available,
  if and only if \<open>health_potion\<close> is not in the inventory, and then leaves the state as
  it was. Otherwise it removes exactly one \<open>health_potion\<close> from the inventory (every
  other entry stays) and raises the health by 30, capped at 100.
\<close>

theorem use_health_potion_spec:
  "(item_unavailable (fst (use_health_potion gs)) \<longleftrightarrow> ''health_potion'' \<notin> set (inventory gs))
   \<and> (''health_potion'' \<notin> set (inventory gs) \<longrightarrow> snd (use_health_potion gs) = gs)
   \<and> (''health_potion'' \<in> set (inventory gs) \<longrightarrow>
        health (snd (use_health_potion gs)) = min (health gs + 30) 100
      \<and> inventory (snd (use_health_potion gs)) = remove1 ''health_potion'' (inventory gs)
      \<and> count_list (inventory (snd (use_health_potion gs))) ''health_potion'' + 1
          = count_list (inventory gs) ''health_potion''
      \<and> (\<forall>item. item \<noteq> ''health_potion'' \<longrightarrow>
            count_list (inventory (snd (use_health_potion gs))) item
              = count_list (inventory gs) item)
      \<and> choices_made (snd (use_health_potion gs)) = choices_made gs
      \<and> found_item (snd (use_health_potion gs)) = found_item gs)"
proof -
  have fail: "item_unavailable (fst (use_health_potion gs)) \<longleftrightarrow>
      ''health_potion'' \<notin> set (inventory gs)"
    by (simp add: use_health_potion_def item_unavailable_def)
  have same: "snd (use_health_potion gs) = gs" if "''health_potion'' \<notin> set (inventory gs)"
    using that by (simp add: use_health_potion_def)
  have ok: "health (snd (use_health_potion gs)) = min (health gs + 30) 100
      \<and> inventory (snd (use_health_potion gs)) = remove1 ''health_potion'' (inventory gs)
      \<and> count_list (inventory (snd (use_health_potion gs))) ''health_potion'' + 1
          = count_list (inventory gs) ''health_potion''
      \<and> (\<forall>item. item \<noteq> ''health_potion'' \<longrightarrow>
            count_list (inventory (snd (use_health_potion gs))) item
              = count_list (inventory gs) item)
      \<and> choices_made (snd (use_health_potion gs)) = choices_made gs
      \<and> found_item (snd (use_health_potion gs)) = found_item gs"
    if has: "''health_potion'' \<in> set (inventory gs)"
  proof -
    have inv: "inventory (snd (use_health_potion gs)) = remove1 ''health_potion'' (inventory gs)"
      using has by (simp add: use_health_potion_def)
    have "0 < count_list (inventory gs) ''health_potion''"
      using has by (rule count_list_pos)
    then have one: "count_list (remove1 ''health_potion'' (inventory gs)) ''health_potion'' + 1
        = count_list (inventory gs) ''health_potion''"
      using has by (simp add: count_list_remove1)
    have others: "\<forall>item. item \<noteq> ''health_potion'' \<longrightarrow>
        count_list (remove1 ''health_potion'' (inventory gs)) item = count_list (inventory gs) item"
      by (simp add: count_list_remove1)
    have rest: "health (snd (use_health_potion gs)) = min (health gs + 30) 100"
      "choices_made (snd (use_health_potion gs)) = choices_made gs"
      "found_item (snd (use_health_potion gs)) = found_item gs"
      using has by (simp_all add: use_health_potion_def)
    from inv one others rest show ?thesis by simp
  qed
  from fail same ok show ?thesis by blast
qed

theorem use_health_potion_spec_witness:
  "snd (use_health_potion \<lparr>health = 80, inventory = [''health_potion'', ''sword'', ''health_potion''],
       choices_made = 4, found_item = None\<rparr>)
     = \<lparr>health = 100, inventory = [''sword'', ''health_potion''], choices_made = 4, found_item = None\<rparr>
   \<and> item_unavailable (fst (use_health_potion \<lparr>health = 80, inventory = [''sword''],
       choices_made = 4, found_item = None\<rparr>))
   \<and> snd (use_health_potion \<lparr>health = 80, inventory = [''sword''],
       choices_made = 4, found_item = None\<rparr>)
     = \<lparr>health = 80, inventory = [''sword''], choices_made = 4, found_item = None\<rparr>"
  using use_health_potion_spec [of "\<lparr>health = 80,
      inventory = [''health_potion'', ''sword'', ''health_potion''],
      choices_made = 4, found_item = None\<rparr>"]
    use_health_potion_spec [of "\<lparr>health = 80, inventory = [''sword''],
      choices_made = 4, found_item = None\<rparr>"]
  by simp

subsection \<open>Picking up the found item\<close>

text \<open>
  Claim C6, as the specification states it: picking up a found item increments the
  choice count, and happens whenever a found item is set. The script leaves the choice
  count at 3 when it picks up the sword, and it keeps a found sword pending when a sword
  is in the inventory already.
\<close>

theorem pickup_keeps_choices_counterexample:
  "choices_made (snd (add_item_to_inventory ascii_py
       \<lparr>health = 100, inventory = [], choices_made = 3, found_item = Some ''sword''\<rparr>)) = 3
   \<and> found_item (snd (add_item_to_inventory ascii_py
       \<lparr>health = 100, inventory = [''sword''], choices_made = 3, found_item = Some ''sword''\<rparr>))
       = Some ''sword''"
  by (simp add: add_item_to_inventory_def)

text \<open>
  Claim C6, amended. \<open>add_item_to_inventory\<close>, when the found item is set and not yet in
  the inventory, appends it to the inventory and clears the found item; the choice count
  stays as it is (the discovery counted already). When no item is found, or the found
  item is in the inventory already, it changes nothing.
\<close>

theorem add_item_to_inventory_spec:
  "(found_item gs = Some item \<and> item \<noteq> [] \<and> item \<notin> set (inventory gs) \<longrightarrow>
        snd (add_item_to_inventory py gs)
          = gs\<lparr>inventory := inventory gs @ [item], found_item := None\<rparr>
      \<and> choices_made (snd (add_item_to_inventory py gs)) = choices_made gs)
   \<and> (found_item gs = None \<longrightarrow> add_item_to_inventory py gs = ([], gs))
   \<and> (found_item gs = Some item \<and> item \<in> set (inventory gs) \<longrightarrow>
        add_item_to_inventory py gs = ([], gs))"
  by (simp add: add_item_to_inventory_def)

theorem add_item_to_inventory_spec_witness:
  "snd (add_item_to_inventory ascii_py
       \<lparr>health = 100, inventory = [''key''], choices_made = 3, found_item = Some ''sword''\<rparr>)
     = \<lparr>health = 100, inventory = [''key'', ''sword''], choices_made = 3, found_item = None\<rparr>
   \<and> add_item_to_inventory ascii_py
       \<lparr>health = 100, inventory = [''key''], choices_made = 3, found_item = None\<rparr>
     = ([], \<lparr>health = 100, inventory = [''key''], choices_made = 3, found_item = None\<rparr>)
   \<and> add_item_to_inventory ascii_py
       \<lparr>health = 100, inventory = [''sword''], choices_made = 3, found_item = Some ''sword''\<rparr>
     = ([], \<lparr>health = 100, inventory = [''sword''], choices_made = 3, found_item = Some ''sword''\<rparr>)"
  using add_item_to_inventory_spec [of "\<lparr>health = 100, inventory = [''key''],
      choices_made = 3, found_item = Some ''sword''\<rparr>" "''sword''"]
    add_item_to_inventory_spec [of "\<lparr>health = 100, inventory = [''key''],
      choices_made = 3, found_item = None\<rparr>" "''sword''"]
    add_item_to_inventory_spec [of "\<lparr>health = 100, inventory = [''sword''],
      choices_made = 3, found_item = Some ''sword''\<rparr>" "''sword''"]
  by simp

subsection \<open>What the operations keep\<close>

lemma state_inv_new: "state_inv new_game_state"
  by (simp add: state_inv_def found_item_known_def new_game_state_def)

lemma state_inv_choices: "state_inv (gs\<lparr>choices_made := c\<rparr>) = state_inv gs"
  by (simp add: state_inv_def found_item_known_def)

lemma state_inv_update:
  assumes "state_inv gs"
  shows "state_inv (snd (update_game_state py t gs))"
proof (cases "detected py t = []")
  case True
  with assms show ?thesis
    by (simp add: update_game_state_eq state_inv_def found_item_known_def)
next
  case False
  then have "last (detected py t) \<in> set (detected py t)" by simp
  then have "known_item (last (detected py t))" by (simp add: set_detected)
  with assms False show ?thesis
    by (simp add: update_game_state_eq state_inv_def found_item_known_def)
qed

lemma state_inv_add:
  "state_inv gs \<Longrightarrow> state_inv (snd (add_item_to_inventory py gs))"
  by (auto simp: add_item_to_inventory_def state_inv_def found_item_known_def
      split: option.splits)

lemma state_inv_use:
  "state_inv gs \<Longrightarrow> state_inv (snd (use_health_potion gs))"
  by (simp add: use_health_potion_def state_inv_def found_item_known_def)

lemma game_state_add_intro: "game_state (add_intro s) = game_state s"
  by (simp add: add_intro_def)

lemma state_inv_pick_up_button:
  "state_inv (game_state s) \<Longrightarrow> state_inv (game_state (snd (pick_up_button py inp s)))"
  by (simp add: pick_up_button_def Let_def case_prod_unfold state_inv_add)

lemma state_inv_potion_button:
  "state_inv (game_state s) \<Longrightarrow> state_inv (game_state (snd (potion_button inp s)))"
  by (simp add: potion_button_def Let_def case_prod_unfold state_inv_use)

lemma game_state_player_turn:
  "game_state (snd (player_turn py u g s)) =
     snd (update_game_state py (snd (generate_story_response g))
       ((game_state s)\<lparr>choices_made := choices_made (game_state s) + 1\<rparr>))"
  by (simp add: player_turn_def Let_def split: prod.splits)

lemma state_inv_player_turn:
  "state_inv (game_state s) \<Longrightarrow> state_inv (game_state (snd (player_turn py u g s)))"
  by (simp add: game_state_player_turn state_inv_update state_inv_choices)

lemma stored_inv_cleared: "stored_inv cleared"
  by (simp add: stored_inv_def cleared_def)

lemma stored_inv_store: "stored_inv (store s) = state_inv (game_state s)"
  by (simp add: stored_inv_def store_def)

lemma state_inv_initialize:
  "stored_inv st \<Longrightarrow> state_inv (game_state (initialize_session_state st))"
  by (simp add: stored_inv_def initialize_session_state_def state_inv_new split: option.splits)

lemma stored_inv_main:
  assumes "stored_inv st"
  shows "stored_inv (snd (snd (main py inp st)))"
proof -
  let ?s1 = "add_intro (initialize_session_state st)"
  let ?s2 = "snd (pick_up_button py inp ?s1)"
  let ?s3 = "snd (potion_button inp ?s2)"
  have 1: "state_inv (game_state ?s1)"
    using assms by (simp add: game_state_add_intro state_inv_initialize)
  then have 2: "state_inv (game_state ?s2)" by (rule state_inv_pick_up_button)
  then have 3: "state_inv (game_state ?s3)" by (rule state_inv_potion_button)
  then have 4: "state_inv (game_state (snd (player_turn py u (generator inp) ?s3)))" for u
    by (rule state_inv_player_turn)
  show ?thesis
    using 1 3 4
    by (simp add: main_def Let_def case_prod_unfold stored_inv_cleared stored_inv_store
        split: option.splits)
qed

lemma main_idle_Finished: "fst (main py (idle inp) st) = Finished"
proof -
  have "fst (main py (idle inp) st) \<noteq> Rerun"
    by (auto simp: main_def idle_def Let_def case_prod_unfold split: option.splits)
  then show ?thesis
    by (cases "fst (main py (idle inp) st)") auto
qed

lemma interaction_eq:
  "interaction py inp st =
     (case main py inp st of
        (Rerun, ui, st') \<Rightarrow> snd (main py (idle inp) st')
      | (Finished, ui, st') \<Rightarrow> (ui, st'))"
proof -
  obtain e ui st' where m: "main py inp st = (e, ui, st')"
    by (cases "main py inp st") auto
  show ?thesis
  proof (cases e)
    case Finished
    with m show ?thesis by (subst interaction.simps) simp
  next
    case Rerun
    obtain ui2 st2 where m2: "main py (idle inp) st' = (Finished, ui2, st2)"
      using main_idle_Finished [of py inp st'] by (cases "main py (idle inp) st'") auto
    have "interaction py (idle inp) st' = (ui2, st2)"
      using m2 by (subst interaction.simps) simp
    with m Rerun m2 show ?thesis by (subst interaction.simps) simp
  qed
qed

lemma stored_inv_interaction:
  assumes "stored_inv st"
  shows "stored_inv (snd (interaction py inp st))"
proof -
  obtain e ui st' where m: "main py inp st = (e, ui, st')"
    by (cases "main py inp st") auto
  have st': "stored_inv st'"
    using stored_inv_main [OF assms, of py inp] m by simp
  have "stored_inv (snd (snd (main py (idle inp) st')))"
    using st' by (rule stored_inv_main)
  with m st' show ?thesis
    by (cases e) (simp_all add: interaction_eq)
qed

lemma sword_again: "detected ascii_py ''You found a **sword**!'' = [''sword'']"
  by code_simp

text \<open>
  Claim C5, as the specification states it: the found item is set only if it is not in
  the inventory already, so that a found item is never an item of the inventory. With a
  sword in the inventory and no found item, a text that marks the sword makes the sword
  the found item.
\<close>

theorem found_item_in_inventory_counterexample:
  "state_inv (new_game_state\<lparr>inventory := [''sword'']\<rparr>)
   \<and> found_item (snd (update_game_state ascii_py ''You found a **sword**!''
        (new_game_state\<lparr>inventory := [''sword'']\<rparr>))) = Some ''sword''
   \<and> ''sword'' \<in> set (inventory (snd (update_game_state ascii_py ''You found a **sword**!''
        (new_game_state\<lparr>inventory := [''sword'']\<rparr>))))"
  by (simp add: update_game_state_eq sword_again state_inv_def found_item_known_def
      new_game_state_def)

text \<open>
  Claim C5, amended. The item scan sets the found item to the catalog identifier it
  detects, whether or not that identifier is in the inventory already; the test against
  the inventory is made when the item is picked up. Every operation (the narrative
  interpreter, the pickup, the potion, a run of the script, an interaction) keeps: the
  found item, if set, is a known catalog identifier, and no identifier is in the
  inventory twice.
\<close>

theorem found_item_known_preserved:
  "(detected py t \<noteq> [] \<longrightarrow>
      found_item (snd (update_game_state py t gs)) = Some (last (detected py t)))
   \<and> (state_inv gs \<longrightarrow>
        state_inv (snd (update_game_state py t gs))
      \<and> state_inv (snd (add_item_to_inventory py gs))
      \<and> state_inv (snd (use_health_potion gs)))
   \<and> (stored_inv st \<longrightarrow>
        stored_inv (snd (snd (main py inp st))) \<and> stored_inv (snd (interaction py inp st)))"
proof -
  have "found_item (snd (update_game_state py t gs)) = Some (last (detected py t))"
    if "detected py t \<noteq> []"
    using that by (simp add: update_game_state_eq)
  then show ?thesis
    using state_inv_update state_inv_add state_inv_use stored_inv_main stored_inv_interaction
    by blast
qed

theorem found_item_known_preserved_witness:
  "found_item (snd (update_game_state ascii_py ''You found a **sword**!''
       (new_game_state\<lparr>inventory := [''sword'']\<rparr>))) = Some ''sword''
   \<and> state_inv (snd (update_game_state ascii_py ''You found a **sword**!''
       (new_game_state\<lparr>inventory := [''sword'']\<rparr>)))
   \<and> state_inv (snd (add_item_to_inventory ascii_py (new_game_state\<lparr>inventory := [''sword'']\<rparr>)))
   \<and> state_inv (snd (use_health_potion (new_game_state\<lparr>inventory := [''sword'']\<rparr>)))
   \<and> stored_inv (snd (interaction ascii_py
        \<lparr>restart_game = False, start_new_game = False, pick_up = False, use_potion = False,
         user_input = Some ''look'', generator = Response ''You found a **sword**!''\<rparr>
        cleared))"
proof -
  have a: "state_inv (new_game_state\<lparr>inventory := [''sword'']\<rparr>)"
    by (simp add: state_inv_def found_item_known_def new_game_state_def)
  have b: "stored_inv cleared"
    by (simp add: stored_inv_def cleared_def)
  from a b found_item_known_preserved [where py = ascii_py
      and t = "''You found a **sword**!''"
      and gs = "new_game_state\<lparr>inventory := [''sword'']\<rparr>" and st = cleared
      and inp = "\<lparr>restart_game = False, start_new_game = False, pick_up = False,
        use_potion = False, user_input = Some ''look'',
        generator = Response ''You found a **sword**!''\<rparr>"]
  show ?thesis by (simp add: sword_again)
qed

subsection \<open>Restart\<close>

lemma main_restart: "restart_game inp \<Longrightarrow> main py inp st = (Rerun, [], cleared)"
  by (simp add: main_def)

lemma main_new_game:
  "\<not> restart_game inp \<Longrightarrow> health (game_state (initialize_session_state st)) \<le> 0 \<Longrightarrow>
     start_new_game inp \<Longrightarrow> main py inp st = (Rerun, [St_error game_over_text], cleared)"
  by (simp add: main_def Let_def add_intro_def)

lemma main_idle_cleared:
  "main py (idle inp) cleared =
     (Finished, [], store \<lparr>conversation_history = [intro_message], messages = [intro_message],
        game_state = new_game_state\<rparr>)"
  by (simp add: main_def idle_def cleared_def initialize_session_state_def add_intro_def
      new_game_state_def pick_up_button_def potion_button_def Let_def)

text \<open>
  Claim C8. Restart (the side bar's button, or the new-game button once the player has
  perished) clears the session state and runs the script again: the game state is the
  initial one (health 100, empty inventory, no choice made, no found item) and both the
  conversation history and the displayed messages hold exactly the introduction, a turn
  of the model.
\<close>

theorem restart_resets:
  "(restart_game inp \<longrightarrow>
      interaction py inp st =
        ([], store \<lparr>conversation_history = [intro_message], messages = [intro_message],
               game_state = new_game_state\<rparr>))
   \<and> (\<not> restart_game inp \<and> health (game_state (initialize_session_state st)) \<le> 0
        \<and> start_new_game inp \<longrightarrow>
      interaction py inp st =
        ([], store \<lparr>conversation_history = [intro_message], messages = [intro_message],
               game_state = new_game_state\<rparr>))
   \<and> new_game_state = \<lparr>health = 100, inventory = [], choices_made = 0, found_item = None\<rparr>
   \<and> role intro_message = ''model''"
  by (simp add: interaction_eq main_restart main_new_game main_idle_cleared
      new_game_state_def intro_message_def)

theorem restart_resets_witness:
  "interaction ascii_py (no_input\<lparr>restart_game := True\<rparr>) played_session =
     ([], \<lparr>stored_conversation_history = Some [intro_message],
           stored_messages = Some [intro_message],
           stored_game_state =
             Some \<lparr>health = 100, inventory = [], choices_made = 0, found_item = None\<rparr>\<rparr>)
   \<and> interaction ascii_py (no_input\<lparr>start_new_game := True\<rparr>) perished_session =
     ([], \<lparr>stored_conversation_history = Some [intro_message],
           stored_messages = Some [intro_message],
           stored_game_state =
             Some \<lparr>health = 100, inventory = [], choices_made = 0, found_item = None\<rparr>\<rparr>)"
proof -
  have a: "restart_game (no_input\<lparr>restart_game := True\<rparr>)"
    by simp
  have b: "\<not> restart_game (no_input\<lparr>start_new_game := True\<rparr>)
      \<and> health (game_state (initialize_session_state perished_session)) \<le> 0
      \<and> start_new_game (no_input\<lparr>start_new_game := True\<rparr>)"
    by (simp add: no_input_def perished_session_def store_def initialize_session_state_def)
  from a b restart_resets [of "no_input\<lparr>restart_game := True\<rparr>" ascii_py played_session]
    restart_resets [of "no_input\<lparr>start_new_game := True\<rparr>" ascii_py perished_session]
  show ?thesis
    by (simp add: store_def)
qed

subsection \<open>A turn whose generator call fails\<close>

lemma update_fallback:
  "ascii_faithful py \<Longrightarrow> 0 \<le> health gs \<Longrightarrow> update_game_state py fallback_text gs = ([], gs)"
  by (simp add: update_game_state_eq fallback_no_danger fallback_no_item max_def)

lemma player_turn_raises:
  assumes "ascii_faithful py" and "0 \<le> health (game_state s)"
  shows "player_turn py u (Raises e) s =
     ([St_error (''Error generating response: '' @ e)],
      s\<lparr>conversation_history := conversation_history s
           @ [\<lparr>role = ''user'', parts = [u]\<rparr>, \<lparr>role = ''model'', parts = [fallback_text]\<rparr>],
        messages := messages s
           @ [\<lparr>role = ''user'', parts = [u]\<rparr>, \<lparr>role = ''model'', parts = [fallback_text]\<rparr>],
        game_state := (game_state s)\<lparr>choices_made := choices_made (game_state s) + 1\<rparr>\<rparr>)"
  using assms
  by (simp add: player_turn_def generate_story_response_def Let_def update_fallback)

lemma main_turn:
  assumes "\<not> restart_game inp" and "0 < health (game_state (initialize_session_state st))"
    and "user_input inp = Some u" and "u \<noteq> []"
  shows "main py inp st =
     (Rerun,
      fst (pick_up_button py inp (add_intro (initialize_session_state st)))
      @ fst (potion_button inp (snd (pick_up_button py inp (add_intro (initialize_session_state st)))))
      @ fst (player_turn py u (generator inp)
          (snd (potion_button inp
            (snd (pick_up_button py inp (add_intro (initialize_session_state st))))))),
      store (snd (player_turn py u (generator inp)
          (snd (potion_button inp
            (snd (pick_up_button py inp (add_intro (initialize_session_state st)))))))))"
  using assms by (simp add: main_def Let_def case_prod_unfold game_state_add_intro)

lemma main_idle_store:
  assumes "conversation_history s \<noteq> []" and "0 < health (game_state s)"
  shows "main py (idle inp) (store s) = (Finished, [], store s)"
  using assms
  by (simp add: main_def idle_def store_def initialize_session_state_def add_intro_def
      pick_up_button_def potion_button_def Let_def)

text \<open>
  Claim C2, as the specification states it: when the generator fails, no narrator turn
  is appended to the log. From a fresh session, a turn whose generator call raises
  leaves a log of three entries, the last a turn of the model with the fallback text.
\<close>

theorem generator_failure_turn_counterexample:
  "stored_conversation_history (snd (interaction ascii_py
       \<lparr>restart_game = False, start_new_game = False, pick_up = False, use_potion = False,
        user_input = Some ''open the door'', generator = Raises ''timeout''\<rparr> cleared))
     = Some [intro_message, \<lparr>role = ''user'', parts = [''open the door'']\<rparr>,
         \<lparr>role = ''model'', parts = [fallback_text]\<rparr>]"
proof -
  let ?inp = "\<lparr>restart_game = False, start_new_game = False, pick_up = False,
      use_potion = False, user_input = Some ''open the door'', generator = Raises ''timeout''\<rparr>"
  let ?s = "\<lparr>conversation_history =
        [intro_message, \<lparr>role = ''user'', parts = [''open the door'']\<rparr>,
         \<lparr>role = ''model'', parts = [fallback_text]\<rparr>],
      messages =
        [intro_message, \<lparr>role = ''user'', parts = [''open the door'']\<rparr>,
         \<lparr>role = ''model'', parts = [fallback_text]\<rparr>],
      game_state = \<lparr>health = 100, inventory = [], choices_made = 1, found_item = None\<rparr>\<rparr>"
  have 1: "main ascii_py ?inp cleared = (Rerun, [St_error ''Error generating response: timeout''], store ?s)"
    by (simp add: main_def Let_def initialize_session_state_def cleared_def add_intro_def
        pick_up_button_def potion_button_def new_game_state_def player_turn_raises
        ascii_faithful_ascii_py)
  have 2: "main ascii_py (idle ?inp) (store ?s) = (Finished, [], store ?s)"
    by (rule main_idle_store) simp_all
  from 1 2 have "interaction ascii_py ?inp cleared = ([], store ?s)"
    by (simp add: interaction_eq)
  then show ?thesis
    by (simp add: store_def)
qed

text \<open>
  Claim C2, amended. When the generator call raises, the error is shown with
  \<open>st.error\<close> and the fixed fallback text is taken as the response: the player's action
  stays in the log, a turn of the model holding the fallback text is appended after it
  (to the history and to the displayed messages), and health, inventory and found item
  are unchanged; the choice count has the one increment of the player's action. The
  session goes on: the run that follows shows the page and waits for input, with the
  state as the turn left it. The fallback text is ASCII, and Python's \<open>lower\<close> is taken
  to do on ASCII text what it does there.
\<close>

theorem generator_failure_turn:
  assumes "\<not> restart_game inp" and "\<not> pick_up inp" and "\<not> use_potion inp"
    and "user_input inp = Some u" and "u \<noteq> []" and "generator inp = Raises e"
    and "s = add_intro (initialize_session_state st)" and "0 < health (game_state s)"
    and "s' = s\<lparr>conversation_history := conversation_history s
           @ [\<lparr>role = ''user'', parts = [u]\<rparr>, \<lparr>role = ''model'', parts = [fallback_text]\<rparr>],
        messages := messages s
           @ [\<lparr>role = ''user'', parts = [u]\<rparr>, \<lparr>role = ''model'', parts = [fallback_text]\<rparr>],
        game_state := (game_state s)\<lparr>choices_made := choices_made (game_state s) + 1\<rparr>\<rparr>"
    and "ascii_faithful py"
  shows "main py inp st = (Rerun, [St_error (''Error generating response: '' @ e)], store s')
    \<and> main py (idle inp) (store s') = (Finished, [], store s')
    \<and> interaction py inp st = ([], store s')"
proof -
  have h: "0 < health (game_state (initialize_session_state st))"
    using assms(7,8) by (simp add: game_state_add_intro)
  have b1: "pick_up_button py inp s = ([], s)"
    using assms(2) by (simp add: pick_up_button_def)
  have b2: "potion_button inp s = ([], s)"
    using assms(3) by (simp add: potion_button_def)
  have t: "player_turn py u (Raises e) s = ([St_error (''Error generating response: '' @ e)], s')"
    using assms(8,9) player_turn_raises [OF assms(10), of s u e] by simp
  have m: "main py inp st = (Rerun, [St_error (''Error generating response: '' @ e)], store s')"
    using main_turn [OF assms(1) h assms(4,5)] assms(6,7) b1 b2 t by simp
  have "conversation_history s' \<noteq> []" and "0 < health (game_state s')"
    using assms(8,9) by simp_all
  then have i: "main py (idle inp) (store s') = (Finished, [], store s')"
    by (rule main_idle_store)
  from m i show ?thesis
    by (simp add: interaction_eq)
qed

theorem generator_failure_turn_witness:
  "main ascii_py \<lparr>restart_game = False, start_new_game = False, pick_up = False, use_potion = False,
        user_input = Some ''open the door'', generator = Raises ''timeout''\<rparr> cleared
     = (Rerun, [St_error ''Error generating response: timeout''],
        store \<lparr>conversation_history =
            [intro_message, \<lparr>role = ''user'', parts = [''open the door'']\<rparr>,
             \<lparr>role = ''model'', parts = [fallback_text]\<rparr>],
          messages =
            [intro_message, \<lparr>role = ''user'', parts = [''open the door'']\<rparr>,
             \<lparr>role = ''model'', parts = [fallback_text]\<rparr>],
          game_state = \<lparr>health = 100, inventory = [], choices_made = 1, found_item = None\<rparr>\<rparr>)"
proof -
  let ?inp = "\<lparr>restart_game = False, start_new_game = False, pick_up = False,
      use_potion = False, user_input = Some ''open the door'', generator = Raises ''timeout''\<rparr>"
  let ?before = "\<lparr>conversation_history = [intro_message], messages = [intro_message],
      game_state = new_game_state\<rparr>"
  let ?after = "\<lparr>conversation_history =
        [intro_message, \<lparr>role = ''user'', parts = [''open the door'']\<rparr>,
         \<lparr>role = ''model'', parts = [fallback_text]\<rparr>],
      messages =
        [intro_message, \<lparr>role = ''user'', parts = [''open the door'']\<rparr>,
         \<lparr>role = ''model'', parts = [fallback_text]\<rparr>],
      game_state = \<lparr>health = 100, inventory = [], choices_made = 1, found_item = None\<rparr>\<rparr>"
  have a: "\<not> restart_game ?inp" "\<not> pick_up ?inp" "\<not> use_potion ?inp"
    "user_input ?inp = Some ''open the door''" "''open the door'' \<noteq> []"
    "generator ?inp = Raises ''timeout''"
    by simp_all
  have "initialize_session_state cleared =
      \<lparr>conversation_history = [], messages = [], game_state = new_game_state\<rparr>"
    by (simp add: initialize_session_state_def cleared_def)
  then have "add_intro (initialize_session_state cleared) = ?before"
    by (simp add: add_intro_def)
  then have s0: "?before = add_intro (initialize_session_state cleared)"
    by (rule sym)
  have h: "0 < health (game_state ?before)"
    by (simp add: new_game_state_def)
  have s: "?after = ?before\<lparr>conversation_history := conversation_history ?before
           @ [\<lparr>role = ''user'', parts = [''open the door'']\<rparr>,
              \<lparr>role = ''model'', parts = [fallback_text]\<rparr>],
        messages := messages ?before
           @ [\<lparr>role = ''user'', parts = [''open the door'']\<rparr>,
              \<lparr>role = ''model'', parts = [fallback_text]\<rparr>],
        game_state := (game_state ?before)\<lparr>choices_made := choices_made (game_state ?before) + 1\<rparr>\<rparr>"
    by (simp add: new_game_state_def)
  from generator_failure_turn [OF a s0 h s ascii_faithful_ascii_py] show ?thesis
    by simp
qed

subsection \<open>A turn end to end\<close>

lemma pick_up_button_keeps:
  "health (game_state (snd (pick_up_button py inp s))) = health (game_state s)"
  "choices_made (game_state (snd (pick_up_button py inp s))) = choices_made (game_state s)"
  by (simp_all add: pick_up_button_def add_item_to_inventory_def Let_def case_prod_unfold
      split: option.splits)

lemma potion_button_keeps:
  "choices_made (game_state (snd (potion_button inp s))) = choices_made (game_state s)"
  "health (game_state s) = 100 \<Longrightarrow> health (game_state (snd (potion_button inp s))) = 100"
  by (simp_all add: potion_button_def use_health_potion_def Let_def case_prod_unfold)

lemma explore_potion_text:
  "danger_hits ascii_py ''You explore the path and find a **Potion** under a root.'' = [''explore'']"
  "detected ascii_py ''You explore the path and find a **Potion** under a root.'' = [''potion'']"
  by code_simp+

text \<open>
  Claim C7. With health 100 and \<open>c\<close> choices made, the player submits
  \<open>explore the path\<close> and the generator returns a text whose only danger keyword is
  \<open>explore\<close> and whose only marked catalog item is the potion. After the turn the health
  is 85, the found item is the potion and the choice count is \<open>c + 2\<close>: one for the
  player's action and one for the discovery. The player's own text is not scanned. The
  run that follows \<open>st.rerun()\<close> leaves that state as it is.
\<close>

theorem explore_potion_turn:
  assumes "stored_game_state st = Some gs" and "health gs = 100" and "choices_made gs = c"
    and "\<not> restart_game inp" and "user_input inp = Some ''explore the path''"
    and "generator inp = Response t"
    and "danger_hits py t = [''explore'']" and "detected py t = [''potion'']"
  shows "fst (main py inp st) = Rerun
      \<and> map_option health (stored_game_state (snd (snd (main py inp st)))) = Some 85
      \<and> map_option found_item (stored_game_state (snd (snd (main py inp st))))
          = Some (Some ''potion'')
      \<and> map_option choices_made (stored_game_state (snd (snd (main py inp st)))) = Some (c + 2)
      \<and> snd (interaction py inp st) = snd (snd (main py inp st))"
proof -
  let ?s1 = "add_intro (initialize_session_state st)"
  let ?s3 = "snd (potion_button inp (snd (pick_up_button py inp ?s1)))"
  let ?s4 = "snd (player_turn py ''explore the path'' (generator inp) ?s3)"
  have g: "game_state (initialize_session_state st) = gs"
    using assms(1) by (simp add: initialize_session_state_def)
  have h0: "0 < health (game_state (initialize_session_state st))"
    using g assms(2) by simp
  have m: "main py inp st =
      (Rerun,
       fst (pick_up_button py inp ?s1) @ fst (potion_button inp (snd (pick_up_button py inp ?s1)))
         @ fst (player_turn py ''explore the path'' (generator inp) ?s3),
       store ?s4)"
    using main_turn [OF assms(4) h0 assms(5)] by simp
  have h3: "health (game_state ?s3) = 100"
    using g assms(2) by (simp add: potion_button_keeps pick_up_button_keeps game_state_add_intro)
  have c3: "choices_made (game_state ?s3) = c"
    using g assms(3) by (simp add: potion_button_keeps pick_up_button_keeps game_state_add_intro)
  have g4: "game_state ?s4 =
      snd (update_game_state py t ((game_state ?s3)\<lparr>choices_made := c + 1\<rparr>))"
    using c3 assms(6) by (simp add: game_state_player_turn generate_story_response_def)
  have h4: "health (game_state ?s4) = 85"
    using h3 assms(7,8) by (simp add: g4 update_game_state_eq)
  have f4: "found_item (game_state ?s4) = Some ''potion''"
    using assms(7,8) by (simp add: g4 update_game_state_eq)
  have c4: "choices_made (game_state ?s4) = c + 2"
    using assms(7,8) by (simp add: g4 update_game_state_eq)
  have "conversation_history ?s4 \<noteq> []"
    by (simp add: player_turn_def Let_def case_prod_unfold)
  moreover have "0 < health (game_state ?s4)"
    using h4 by simp
  ultimately have "main py (idle inp) (store ?s4) = (Finished, [], store ?s4)"
    by (rule main_idle_store)
  with m have i: "interaction py inp st = ([], store ?s4)"
    by (simp add: interaction_eq)
  from m i h4 f4 c4 show ?thesis by (simp add: store_def)
qed

theorem explore_potion_turn_witness:
  "stored_game_state (snd (snd (main ascii_py \<lparr>restart_game = False, start_new_game = False,
        pick_up = False, use_potion = False, user_input = Some ''explore the path'',
        generator = Response ''You explore the path and find a **Potion** under a root.''\<rparr>
      (store \<lparr>conversation_history = [intro_message], messages = [intro_message],
         game_state = \<lparr>health = 100, inventory = [], choices_made = 4,
           found_item = None\<rparr>\<rparr>))))
     = Some \<lparr>health = 85, inventory = [], choices_made = 6, found_item = Some ''potion''\<rparr>"
proof -
  let ?inp = "\<lparr>restart_game = False, start_new_game = False, pick_up = False,
      use_potion = False, user_input = Some ''explore the path'',
      generator = Response ''You explore the path and find a **Potion** under a root.''\<rparr>"
  let ?gs = "\<lparr>health = 100, inventory = [], choices_made = 4, found_item = None\<rparr>"
  let ?st = "store \<lparr>conversation_history = [intro_message], messages = [intro_message],
      game_state = ?gs\<rparr>"
  have a: "stored_game_state ?st = Some ?gs" "health ?gs = 100" "choices_made ?gs = 4"
    "\<not> restart_game ?inp" "user_input ?inp = Some ''explore the path''"
    "generator ?inp = Response ''You explore the path and find a **Potion** under a root.''"
    by (simp_all add: store_def)
  have inv: "map_option inventory (stored_game_state (snd (snd (main ascii_py ?inp ?st)))) = Some []"
    using main_turn [of ?inp ?st "''explore the path''" ascii_py]
    by (simp add: store_def initialize_session_state_def add_intro_def intro_message_def
        pick_up_button_def potion_button_def game_state_player_turn
        generate_story_response_def update_game_state_eq explore_potion_text)
  from explore_potion_turn [OF a explore_potion_text] inv show ?thesis
    by (cases "stored_game_state (snd (snd (main ascii_py ?inp ?st)))") auto
qed

end
